theory Spec2Isabelle
  imports Main
begin

section \<open>The Onedev webhook adapter (zerver/webhooks/onedev/view.py)\<close>

subsection \<open>Payload values and errors\<close>

text \<open>
  The payload is the parsed JSON body of the request. A number that is not an integer is
  kept as an opaque pair: no formatter reads it, except to reject it.
  A JSON object is an association list read with \<open>map_of\<close>.
\<close>

datatype json =
    JNull
  | JBool bool
  | JInt int
  | JFloat int int
  | JString string
  | JList "json list"
  | JDict "(string \<times> json) list"

text \<open>
  The three ways a request fails: a field access that does not deliver (the spec's
  \<open>FieldExtractionError\<close>), the \<open>UnsupportedWebhookEventType\<close> raised on line 227 with the
  event it was given, and Python's \<open>UnboundLocalError\<close> when a local variable is read
  before it was assigned. \<open>IndexError\<close> is a list index out of range.
\<close>

datatype error =
    FieldExtractionError
  | UnsupportedWebhookEventType "string option"
  | UnboundLocalError string
  | IndexError

text \<open>Statements in sequence: the first exception ends the function.\<close>

definition and_then :: "error + 'a \<Rightarrow> ('a \<Rightarrow> error + 'b) \<Rightarrow> error + 'b" where
  "and_then r k = (case r of Inl e \<Rightarrow> Inl e | Inr x \<Rightarrow> k x)"

text \<open>
  Modelled from the spec: the class \<open>WildValue\<close> and the validators \<open>check_string\<close>,
  \<open>check_int\<close>, \<open>check_none_or\<close> of zerver/lib/validator.py are not part of the source
  at hand. The spec (sections 3 and 4.2): every access follows a fixed path of keys and has
  a per-access type check; "if the expected key is absent or of the wrong declared type,
  the whole request fails", with a \<open>FieldExtractionError\<close> "if a field access requests a
  type mismatch (e.g., expected integer, found string) or a required key path does not
  exist". A wild value is the value reached so far, or the failure of an earlier step.
\<close>

type_synonym WildValue = "error + json"

definition to_wild_value :: "json \<Rightarrow> WildValue" where
  "to_wild_value v = Inr v"

definition getitem :: "WildValue \<Rightarrow> string \<Rightarrow> WildValue" where
  "getitem w key =
     (case w of
        Inl e \<Rightarrow> Inl e
      | Inr v \<Rightarrow>
          (case v of
             JDict kvs \<Rightarrow>
               (case map_of kvs key of
                  None \<Rightarrow> Inl FieldExtractionError
                | Some x \<Rightarrow> Inr x)
           | _ \<Rightarrow> Inl FieldExtractionError))"

definition tame :: "WildValue \<Rightarrow> (json \<Rightarrow> error + 'a) \<Rightarrow> error + 'a" where
  "tame w validator = and_then w validator"

definition check_string :: "json \<Rightarrow> error + string" where
  "check_string v = (case v of JString s \<Rightarrow> Inr s | _ \<Rightarrow> Inl FieldExtractionError)"

definition check_int :: "json \<Rightarrow> error + int" where
  "check_int v = (case v of JInt i \<Rightarrow> Inr i | _ \<Rightarrow> Inl FieldExtractionError)"

definition check_none_or :: "(json \<Rightarrow> error + 'a) \<Rightarrow> json \<Rightarrow> error + 'a option" where
  "check_none_or sub_validator v =
     (case v of
        JNull \<Rightarrow> Inr None
      | _ \<Rightarrow> and_then (sub_validator v) (\<lambda>x. Inr (Some x)))"

subsection \<open>Python's string operations\<close>

text \<open>\<open>str(n)\<close> for a natural number and for an integer, as an f-string renders it.\<close>

fun str_nat :: "nat \<Rightarrow> string" where
  "str_nat n =
     (if n < 10 then [''0123456789'' ! n]
      else str_nat (n div 10) @ [''0123456789'' ! (n mod 10)])"

declare str_nat.simps [simp del]

definition str_int :: "int \<Rightarrow> string" where
  "str_int i = (if i < 0 then CHR ''-'' # str_nat (nat (- i)) else str_nat (nat i))"

text \<open>\<open>s.split(sep)\<close> for a separator of one character.\<close>

fun split_char :: "char \<Rightarrow> string \<Rightarrow> string list" where
  "split_char sep [] = [[]]"
| "split_char sep (c # cs) =
     (if c = sep then [] # split_char sep cs
      else (case split_char sep cs of
              [] \<Rightarrow> [[c]]
            | w # ws \<Rightarrow> (c # w) # ws))"

text \<open>\<open>xs[i]\<close> for an index that is not negative.\<close>

definition index :: "'a list \<Rightarrow> nat \<Rightarrow> error + 'a" where
  "index xs i = (if i < length xs then Inr (xs ! i) else Inl IndexError)"

subsection \<open>Classification: \<open>get_event\<close> (lines 61 to 70)\<close>

text \<open>A Python function that reaches its end returns \<open>None\<close>.\<close>

definition get_event :: "json \<Rightarrow> error + string option" where
  "get_event payload =
     and_then (tame (getitem (to_wild_value payload) ''@class'') check_string) (\<lambda>rawEvent.
       if rawEvent = ''io.onedev.server.event.issue.IssueOpened'' then
         Inr (Some ''issue_opened'')
       else if rawEvent = ''io.onedev.server.event.issue.IssueChanged'' then
         Inr (Some ''issue_changed'')
       else if rawEvent = ''io.onedev.server.event.pullrequest.PullRequestOpened'' then
         Inr (Some ''pull_request_opened'')
       else if rawEvent = ''io.onedev.server.event.pullrequest.PullRequestChanged'' then
         Inr (Some ''pull_request_changed'')
       else Inr None)"

subsection \<open>The repair pass: \<open>patchURL\<close> (lines 73 to 79)\<close>

text \<open>
  \<open>re2.sub\<close> with the pattern \<open>\[(.+)\]\(None\)\<close>. The pattern is an opening bracket, the
  group \<open>(.+)\<close>, and the seven characters \<open>](None)\<close>. The dot matches every character but
  the newline, and \<open>+\<close> is greedy: of the ways to match at a position, the one with the
  longest group is taken.

  \<open>match_group s\<close> matches \<open>(.+)\](None\)\<close> at the start of \<open>s\<close>: it gives the group and the
  text after the match. It takes one character, then prefers to take more, and only when
  that fails tries to end the group here.
\<close>

fun match_group :: "string \<Rightarrow> (string \<times> string) option" where
  "match_group [] = None"
| "match_group (c # cs) =
     (if c = CHR 0x0A then None
      else (case match_group cs of
              Some (g, rest) \<Rightarrow> Some (c # g, rest)
            | None \<Rightarrow>
                (if take 7 cs = ''](None)'' then Some ([c], drop 7 cs) else None)))"

text \<open>
  The substitution scans from the left. Where the pattern matches, the match is replaced by
  the replacement function's value and the scan goes on after the match; elsewhere the
  character is kept. The replacement function returns group 1, which a match always has.
\<close>

function patchURL :: "string \<Rightarrow> string" where
  "patchURL [] = []"
| "patchURL (c # cs) =
     (if c = CHR ''[''
      then (case match_group cs of
              Some (g, rest) \<Rightarrow> g @ patchURL rest
            | None \<Rightarrow> c # patchURL cs)
      else c # patchURL cs)"
  by pat_completeness auto
termination
proof (relation "measure length")
  have shorter: "match_group s = Some (g, rest) \<Longrightarrow> length rest < length s" for s g rest
    by (induction s arbitrary: g rest) (auto split: if_splits option.splits)
  show "wf (measure length)"
    by simp
  show "(rest, c # cs) \<in> measure length"
    if "match_group cs = Some x" and "(g, rest) = x" for c cs x g rest
    using that shorter [of cs g rest] by simp
  show "(cs, c # cs) \<in> measure length" for c :: char and cs :: string
    by simp
  then show "(cs, c # cs) \<in> measure length" for c :: char and cs :: string
    by simp
qed

subsection \<open>The templating and delivery collaborators\<close>

text \<open>
  \<open>get_issue_event_message\<close> and \<open>get_pull_request_event_message\<close> (zerver/lib/webhooks/git.py)
  are not part of the source at hand. The formatters below take them as parameters, with
  the arguments in the order of the call sites, so that what is proved of a formatter holds
  for every rendering:
  \<^item> \<open>get_issue_event_message url user_name number action title message\<close> (lines 102 to 109);
  \<^item> \<open>get_pull_request_event_message user_name action url number target_branch base_branch title\<close>
    (lines 128 to 136).
\<close>

type_synonym issue_template =
  "string option \<Rightarrow> string \<Rightarrow> int \<Rightarrow> string \<Rightarrow> string \<Rightarrow> string option \<Rightarrow> string"

type_synonym pull_request_template =
  "string \<Rightarrow> string \<Rightarrow> string option \<Rightarrow> int \<Rightarrow> string \<Rightarrow> string \<Rightarrow> string option \<Rightarrow> string"

definition url_text :: "string option \<Rightarrow> string" where
  "url_text url = (case url of None \<Rightarrow> ''None'' | Some u \<Rightarrow> u)"

text \<open>
  Modelled from the spec: \<open>get_issue_event_message\<close> is missing from the source at hand. The
  spec (section 4.2): "the underlying message-templating collaborator renders link-style
  text as \<open>[label](URL)\<close>; when no URL is available from the source system, the URL
  materializes as the literal string None", and the repair pass turns \<open>[label](None)\<close> into
  the label. The label is the message: for an opened issue "the message is the issue
  description", "absent description renders as empty/omitted content", and a state change is
  "rendered as \<open><user> changed 'state' from '<old>' to '<new>'\<close>". The spec gives the other
  arguments no place in the body of an issue event.
\<close>

definition git_issue_event_message :: issue_template where
  "git_issue_event_message url user_name number action title message =
     (case message of
        None \<Rightarrow> []
      | Some m \<Rightarrow> ''['' @ m @ '']('' @ url_text url @ '')'')"

text \<open>
  Modelled from the spec: \<open>get_pull_request_event_message\<close> is missing from the source at hand.
  The spec (section 4.2): the body is rendered from the user name, the action, the number
  and the branch names, with the link as above, and the title is included only on request.
  The comment on line 118 gives the line:
  \<open>john opened [PR #1](http://localhost:3000/john/try-git/pulls/1) from `feature` to `master`.\<close>
\<close>

definition git_pull_request_event_message :: pull_request_template where
  "git_pull_request_event_message user_name action url number target_branch base_branch title =
     user_name @ '' '' @ action @ '' [PR #'' @ str_int number @
     (case title of None \<Rightarrow> [] | Some t \<Rightarrow> '' '' @ t) @ '']('' @ url_text url @
     '') from `'' @ target_branch @ ''` to `'' @ base_branch @ ''`.''"

text \<open>
  Modelled from the spec: \<open>check_send_webhook_message\<close> (zerver/lib/webhooks/common.py) is not
  part of the source at hand. The spec (sections 2 and 6): topic and body are "handed to
  an external delivery collaborator together with the event kind as metadata". The outbox
  is the list of the calls made so far, in order.
\<close>

type_synonym ('r, 'u) outbox = "('r \<times> 'u \<times> string \<times> string \<times> string) list"

definition check_send_webhook_message ::
  "'r \<Rightarrow> 'u \<Rightarrow> string \<Rightarrow> string \<Rightarrow> string \<Rightarrow> ('r, 'u) outbox \<Rightarrow> ('r, 'u) outbox" where
  "check_send_webhook_message request user_profile topic body event outbox =
     outbox @ [(request, user_profile, topic, body, event)]"

datatype response = json_success

subsection \<open>Formatters (lines 82 to 136)\<close>

definition format_issue_topic :: "json \<Rightarrow> error + string" where
  "format_issue_topic payload =
     and_then (tame (getitem (getitem (to_wild_value payload) ''project'') ''name'') check_string)
       (\<lambda>project_name.
     and_then (tame (getitem (getitem (to_wild_value payload) ''issue'') ''number'') check_int)
       (\<lambda>number.
     and_then (tame (getitem (getitem (to_wild_value payload) ''issue'') ''title'') check_string)
       (\<lambda>title.
     Inr (project_name @ '' / issue #'' @ str_int number @ '' '' @ title))))"

text \<open>
  The local variable \<open>message\<close> is assigned on line 94 and on line 100 only. It is modelled
  as an optional binding: \<open>None\<close> when no assignment was reached, and then reading it on
  line 108 raises \<open>UnboundLocalError\<close>. Its value, once bound, is \<open>None\<close> or a string.
\<close>

definition format_issue_event :: "issue_template \<Rightarrow> json \<Rightarrow> string \<Rightarrow> error + string" where
  "format_issue_event get_issue_event_message payload event_type =
     and_then (tame (getitem (getitem (to_wild_value payload) ''user'') ''name'') check_string)
       (\<lambda>user_name.
     and_then (tame (getitem (getitem (to_wild_value payload) ''issue'') ''number'') check_int)
       (\<lambda>number.
     and_then (tame (getitem (getitem (to_wild_value payload) ''issue'') ''title'') check_string)
       (\<lambda>title.
     and_then
       (if event_type = ''opened'' then
          and_then
            (tame (getitem (getitem (to_wild_value payload) ''issue'') ''description'')
               (check_none_or check_string))
            (\<lambda>description. Inr (Some description))
        else
          and_then
            (tame (getitem (getitem (getitem (to_wild_value payload) ''change'') ''data'') ''@type'')
               check_string)
            (\<lambda>change_type.
               if change_type = ''IssueStateChangeData'' then
                 and_then
                   (tame (getitem (getitem (getitem (to_wild_value payload) ''change'') ''data'')
                      ''oldState'') check_string)
                   (\<lambda>old_state.
                 and_then
                   (tame (getitem (getitem (getitem (to_wild_value payload) ''change'') ''data'')
                      ''newState'') check_string)
                   (\<lambda>new_state.
                 Inr (Some (Some (user_name @ '' changed 'state' from '' @ CHR 0x27 # old_state @
                                  CHR 0x27 # '' to '' @ CHR 0x27 # new_state @ [CHR 0x27])))))
               else Inr None))
       (\<lambda>binding.
          case binding of
            None \<Rightarrow> Inl (UnboundLocalError ''message'')
          | Some message \<Rightarrow>
              Inr (patchURL (get_issue_event_message None user_name number event_type title
                               message))))))"

definition format_pull_request_topic :: "json \<Rightarrow> error + string" where
  "format_pull_request_topic payload =
     and_then (tame (getitem (getitem (to_wild_value payload) ''project'') ''name'') check_string)
       (\<lambda>project_name.
     and_then (tame (getitem (getitem (to_wild_value payload) ''request'') ''number'') check_int)
       (\<lambda>number.
     and_then (tame (getitem (getitem (to_wild_value payload) ''request'') ''title'') check_string)
       (\<lambda>title.
     Inr (project_name @ '' / PR #'' @ str_int number @ '' '' @ title))))"

definition format_pull_request_event ::
  "pull_request_template \<Rightarrow> json \<Rightarrow> bool \<Rightarrow> error + string" where
  "format_pull_request_event get_pull_request_event_message payload include_title =
     and_then (tame (getitem (getitem (to_wild_value payload) ''user'') ''name'') check_string)
       (\<lambda>user_name.
     and_then
       (tame (getitem (getitem (getitem (to_wild_value payload) ''request'') ''lastUpdate'')
          ''activity'') check_string)
       (\<lambda>action.
     and_then (Inr None)
       (\<lambda>url.
     and_then (tame (getitem (getitem (to_wild_value payload) ''request'') ''number'') check_int)
       (\<lambda>number.
     and_then
       (tame (getitem (getitem (to_wild_value payload) ''request'') ''sourceBranch'') check_string)
       (\<lambda>target_branch.
     and_then
       (tame (getitem (getitem (to_wild_value payload) ''request'') ''targetBranch'') check_string)
       (\<lambda>base_branch.
     and_then
       (if include_title then
          and_then
            (tame (getitem (getitem (to_wild_value payload) ''pull_request'') ''title'')
               check_string)
            (\<lambda>t. Inr (Some t))
        else Inr None)
       (\<lambda>title.
     Inr (patchURL (get_pull_request_event_message user_name action url number target_branch
                      base_branch title)))))))))"

subsection \<open>The handler (lines 43 to 58 and 138 to 230)\<close>

text \<open>
  \<open>onedev_webhook_dispatch\<close> is lines 147 to 227 of \<open>onedev_webhook_main\<close>: it gives the
  topic, the body and the event that line 229 hands to the delivery collaborator, or the
  exception raised on the way. \<open>if user_specified_topic:\<close> holds for a string that is
  not empty; it fails for \<open>None\<close> and for the empty string.
\<close>

definition onedev_webhook_dispatch ::
  "issue_template \<Rightarrow> pull_request_template \<Rightarrow> json \<Rightarrow> string option \<Rightarrow>
   error + (string \<times> string \<times> string)" where
  "onedev_webhook_dispatch get_issue_event_message get_pull_request_event_message payload
     user_specified_topic =
     and_then (tame (getitem (getitem (to_wild_value payload) ''project'') ''name'') check_string)
       (\<lambda>repo.
     and_then (get_event payload)
       (\<lambda>event.
     case event of
       None \<Rightarrow> Inl (UnsupportedWebhookEventType None)
     | Some ev \<Rightarrow>
         if ev = ''issue_opened'' then
           and_then (index (split_char (CHR ''_'') ev) 1) (\<lambda>event_type.
           and_then (format_issue_event get_issue_event_message payload event_type) (\<lambda>body.
           and_then
             (case user_specified_topic of
                None \<Rightarrow> format_issue_topic payload
              | Some t \<Rightarrow> if t \<noteq> [] then Inr t else format_issue_topic payload)
             (\<lambda>topic. Inr (topic, body, ev))))
         else if ev = ''issue_changed'' then
           and_then (index (split_char (CHR ''_'') ev) 1) (\<lambda>event_type.
           and_then (format_issue_event get_issue_event_message payload event_type) (\<lambda>body.
           and_then
             (case user_specified_topic of
                None \<Rightarrow> format_issue_topic payload
              | Some t \<Rightarrow> if t \<noteq> [] then Inr t else format_issue_topic payload)
             (\<lambda>topic. Inr (topic, body, ev))))
         else if ev = ''pull_request_opened'' then
           and_then (format_pull_request_event get_pull_request_event_message payload False)
             (\<lambda>body.
           and_then
             (case user_specified_topic of
                None \<Rightarrow> format_pull_request_topic payload
              | Some t \<Rightarrow> if t \<noteq> [] then Inr t else format_pull_request_topic payload)
             (\<lambda>topic. Inr (topic, body, ev)))
         else if ev = ''pull_request_changed'' then
           and_then (format_pull_request_event get_pull_request_event_message payload False)
             (\<lambda>body.
           and_then
             (case user_specified_topic of
                None \<Rightarrow> format_pull_request_topic payload
              | Some t \<Rightarrow> if t \<noteq> [] then Inr t else format_pull_request_topic payload)
             (\<lambda>topic. Inr (topic, body, ev)))
         else Inl (UnsupportedWebhookEventType (Some ev))))"

text \<open>
  The handler returns its response, or the exception, together with the outbox. The integration
  name, the header name and \<open>branches\<close> are parameters, as in the source.
\<close>

definition onedev_webhook_main ::
  "issue_template \<Rightarrow> pull_request_template \<Rightarrow> string \<Rightarrow> string \<Rightarrow> 'r \<Rightarrow> 'u \<Rightarrow> json \<Rightarrow>
   string option \<Rightarrow> string option \<Rightarrow> ('r, 'u) outbox \<Rightarrow> (error + response) \<times> ('r, 'u) outbox" where
  "onedev_webhook_main get_issue_event_message get_pull_request_event_message integration_name
     http_header_name request user_profile payload branches user_specified_topic outbox =
     (case onedev_webhook_dispatch get_issue_event_message get_pull_request_event_message payload
             user_specified_topic of
        Inl e \<Rightarrow> (Inl e, outbox)
      | Inr (topic, body, event) \<Rightarrow>
          (Inr json_success,
           check_send_webhook_message request user_profile topic body event outbox))"

definition api_onedev_webhook ::
  "issue_template \<Rightarrow> pull_request_template \<Rightarrow> 'r \<Rightarrow> 'u \<Rightarrow> json \<Rightarrow> string option \<Rightarrow>
   string option \<Rightarrow> ('r, 'u) outbox \<Rightarrow> (error + response) \<times> ('r, 'u) outbox" where
  "api_onedev_webhook get_issue_event_message get_pull_request_event_message request user_profile
     payload branches user_specified_topic outbox =
     onedev_webhook_main get_issue_event_message get_pull_request_event_message ''Onedev''
       ''X-Gogs-Event'' request user_profile payload branches user_specified_topic outbox"

subsection \<open>Reading a payload, for the statements\<close>

text \<open>
  \<open>field v path\<close> is the value found by following the keys of \<open>path\<close> from \<open>v\<close> through JSON
  objects: \<open>None\<close> when a key is missing or a value on the way is not an object.
\<close>

fun field :: "json \<Rightarrow> string list \<Rightarrow> json option" where
  "field v [] = Some v"
| "field v (k # ks) =
     (case v of
        JDict kvs \<Rightarrow> (case map_of kvs k of None \<Rightarrow> None | Some x \<Rightarrow> field x ks)
      | _ \<Rightarrow> None)"

subsection \<open>Example payloads\<close>

definition issue_opened_payload :: "json \<Rightarrow> json" where
  "issue_opened_payload description =
     JDict [(''@class'', JString ''io.onedev.server.event.issue.IssueOpened''),
            (''project'', JDict [(''name'', JString ''try-git'')]),
            (''user'', JDict [(''name'', JString ''john'')]),
            (''issue'', JDict [(''number'', JInt 7), (''title'', JString ''Bug X''),
                               (''description'', description)])]"

definition issue_opened_no_description :: json where
  "issue_opened_no_description =
     JDict [(''@class'', JString ''io.onedev.server.event.issue.IssueOpened''),
            (''project'', JDict [(''name'', JString ''try-git'')]),
            (''user'', JDict [(''name'', JString ''john'')]),
            (''issue'', JDict [(''number'', JInt 7), (''title'', JString ''Bug X'')])]"

definition issue_changed_payload :: "json \<Rightarrow> json" where
  "issue_changed_payload change_data =
     JDict [(''@class'', JString ''io.onedev.server.event.issue.IssueChanged''),
            (''project'', JDict [(''name'', JString ''try-git'')]),
            (''user'', JDict [(''name'', JString ''john'')]),
            (''issue'', JDict [(''number'', JInt 7), (''title'', JString ''Bug X'')]),
            (''change'', JDict [(''data'', change_data)])]"

definition state_change_data :: json where
  "state_change_data =
     JDict [(''@type'', JString ''IssueStateChangeData''),
            (''oldState'', JString ''open''),
            (''newState'', JString ''closed'')]"

definition title_change_data :: json where
  "title_change_data =
     JDict [(''@type'', JString ''IssueTitleChangeData''),
            (''oldTitle'', JString ''Bug''),
            (''newTitle'', JString ''Bug X'')]"

definition pull_request_payload :: "string \<Rightarrow> string \<Rightarrow> json" where
  "pull_request_payload class activity =
     JDict [(''@class'', JString class),
            (''project'', JDict [(''name'', JString ''try-git'')]),
            (''user'', JDict [(''name'', JString ''john'')]),
            (''request'', JDict [(''number'', JInt 1), (''title'', JString ''Add feature''),
                                 (''sourceBranch'', JString ''master''),
                                 (''targetBranch'', JString ''feature''),
                                 (''lastUpdate'', JDict [(''activity'', JString activity)])])]"

definition bare_payload :: "(string \<times> json) list \<Rightarrow> json" where
  "bare_payload discriminator =
     JDict (discriminator @ [(''user'', JDict [(''name'', JString ''john'')])])"

definition project_payload :: "(string \<times> json) list \<Rightarrow> json" where
  "project_payload discriminator =
     JDict (discriminator @ [(''project'', JDict [(''name'', JString ''try-git'')]),
                             (''user'', JDict [(''name'', JString ''john'')])])"

section \<open>Properties\<close>

subsection \<open>Sequencing and field access\<close>

lemma and_then_simps [simp]:
  "and_then (Inr x) k = k x"
  "and_then (Inl e) k = Inl e"
  by (simp_all add: and_then_def)

lemma and_then_eq_Inr:
  "and_then r k = Inr y \<longleftrightarrow> (\<exists>x. r = Inr x \<and> k x = Inr y)"
  by (cases r) simp_all

text \<open>
  A typed access along a path of keys delivers exactly when \<open>field\<close> finds a value of the
  requested type there; every other outcome is the field-extraction error.
\<close>

lemma string1_iff:
  "tame (getitem (to_wild_value p) a) check_string = Inr s \<longleftrightarrow> field p [a] = Some (JString s)"
  by (auto simp: tame_def and_then_def getitem_def to_wild_value_def check_string_def
      split: json.splits option.splits sum.splits)

lemma string2_iff:
  "tame (getitem (getitem (to_wild_value p) a) b) check_string = Inr s \<longleftrightarrow>
   field p [a, b] = Some (JString s)"
  by (auto simp: tame_def and_then_def getitem_def to_wild_value_def check_string_def
      split: json.splits option.splits sum.splits)

lemma string3_iff:
  "tame (getitem (getitem (getitem (to_wild_value p) a) b) c) check_string = Inr s \<longleftrightarrow>
   field p [a, b, c] = Some (JString s)"
  by (auto simp: tame_def and_then_def getitem_def to_wild_value_def check_string_def
      split: json.splits option.splits sum.splits)

lemma int2_iff:
  "tame (getitem (getitem (to_wild_value p) a) b) check_int = Inr n \<longleftrightarrow>
   field p [a, b] = Some (JInt n)"
  by (auto simp: tame_def and_then_def getitem_def to_wild_value_def check_int_def
      split: json.splits option.splits sum.splits)

lemma string2_Inl:
  "tame (getitem (getitem (to_wild_value p) a) b) check_string = Inl e \<longleftrightarrow>
   e = FieldExtractionError \<and> (\<forall>s. field p [a, b] \<noteq> Some (JString s))"
  by (auto simp: tame_def and_then_def getitem_def to_wild_value_def check_string_def
      split: json.splits option.splits sum.splits)

lemma string1_Inl:
  "tame (getitem (to_wild_value p) a) check_string = Inl e \<longleftrightarrow>
   e = FieldExtractionError \<and> (\<forall>s. field p [a] \<noteq> Some (JString s))"
  by (auto simp: tame_def and_then_def getitem_def to_wild_value_def check_string_def
      split: json.splits option.splits sum.splits)

lemma optstring2_null:
  "field p [a, b] = Some JNull \<Longrightarrow>
   tame (getitem (getitem (to_wild_value p) a) b) (check_none_or check_string) = Inr None"
  by (auto simp: tame_def and_then_def getitem_def to_wild_value_def check_none_or_def
      split: json.splits option.splits sum.splits)

lemma optstring2_absent:
  "field p [a, b] = None \<Longrightarrow>
   tame (getitem (getitem (to_wild_value p) a) b) (check_none_or check_string) =
   Inl FieldExtractionError"
  by (auto simp: tame_def and_then_def getitem_def to_wild_value_def check_none_or_def
      split: json.splits option.splits sum.splits)

lemmas payload_defs =
  issue_opened_payload_def issue_opened_no_description_def issue_changed_payload_def
  state_change_data_def title_change_data_def pull_request_payload_def bare_payload_def
  project_payload_def

subsection \<open>Classification\<close>

lemma get_event_string:
  "field p [''@class''] = Some (JString s) \<Longrightarrow>
   get_event p =
     Inr (if s = ''io.onedev.server.event.issue.IssueOpened'' then Some ''issue_opened''
          else if s = ''io.onedev.server.event.issue.IssueChanged'' then Some ''issue_changed''
          else if s = ''io.onedev.server.event.pullrequest.PullRequestOpened''
            then Some ''pull_request_opened''
          else if s = ''io.onedev.server.event.pullrequest.PullRequestChanged''
            then Some ''pull_request_changed''
          else None)"
  unfolding get_event_def using string1_iff [of p "''@class''" s] by simp

lemma get_event_no_string:
  "\<forall>s. field p [''@class''] \<noteq> Some (JString s) \<Longrightarrow> get_event p = Inl FieldExtractionError"
  unfolding get_event_def
  using string1_Inl [of p "''@class''"]
  by (cases "tame (getitem (to_wild_value p) ''@class'') check_string")
    (simp_all add: string1_iff)

lemma get_event_supported:
  assumes "get_event p = Inr (Some ev)"
  shows "ev = ''issue_opened'' \<or> ev = ''issue_changed'' \<or> ev = ''pull_request_opened'' \<or>
         ev = ''pull_request_changed''"
  using assms unfolding get_event_def and_then_eq_Inr
  by (auto split: if_splits)

subsection \<open>The handler, branch by branch\<close>

lemma dispatch_issue_opened:
  assumes "field p [''project'', ''name''] = Some (JString proj)"
    and "get_event p = Inr (Some ''issue_opened'')"
  shows "onedev_webhook_dispatch gi gp p ust =
     and_then (format_issue_event gi p ''opened'') (\<lambda>body.
     and_then (case ust of None \<Rightarrow> format_issue_topic p
               | Some t \<Rightarrow> if t \<noteq> [] then Inr t else format_issue_topic p)
       (\<lambda>topic. Inr (topic, body, ''issue_opened'')))"
  using assms
  by (simp add: onedev_webhook_dispatch_def string2_iff [THEN iffD2] index_def)

lemma dispatch_issue_changed:
  assumes "field p [''project'', ''name''] = Some (JString proj)"
    and "get_event p = Inr (Some ''issue_changed'')"
  shows "onedev_webhook_dispatch gi gp p ust =
     and_then (format_issue_event gi p ''changed'') (\<lambda>body.
     and_then (case ust of None \<Rightarrow> format_issue_topic p
               | Some t \<Rightarrow> if t \<noteq> [] then Inr t else format_issue_topic p)
       (\<lambda>topic. Inr (topic, body, ''issue_changed'')))"
  using assms
  by (simp add: onedev_webhook_dispatch_def string2_iff [THEN iffD2] index_def)

lemma dispatch_pull_request:
  assumes "field p [''project'', ''name''] = Some (JString proj)"
    and "get_event p = Inr (Some ev)"
    and "ev = ''pull_request_opened'' \<or> ev = ''pull_request_changed''"
  shows "onedev_webhook_dispatch gi gp p ust =
     and_then (format_pull_request_event gp p False) (\<lambda>body.
     and_then (case ust of None \<Rightarrow> format_pull_request_topic p
               | Some t \<Rightarrow> if t \<noteq> [] then Inr t else format_pull_request_topic p)
       (\<lambda>topic. Inr (topic, body, ev)))"
  using assms
  by (auto simp add: onedev_webhook_dispatch_def string2_iff [THEN iffD2])

lemma dispatch_unsupported:
  assumes "field p [''project'', ''name''] = Some (JString proj)"
    and "get_event p = Inr None"
  shows "onedev_webhook_dispatch gi gp p ust = Inl (UnsupportedWebhookEventType None)"
  using assms
  by (simp add: onedev_webhook_dispatch_def string2_iff [THEN iffD2])

lemma dispatch_no_project:
  assumes "\<forall>s. field p [''project'', ''name''] \<noteq> Some (JString s)"
  shows "onedev_webhook_dispatch gi gp p ust = Inl FieldExtractionError"
proof -
  obtain e where "tame (getitem (getitem (to_wild_value p) ''project'') ''name'') check_string = Inl e"
    using assms string2_iff [of p "''project''" "''name''"]
    by (cases "tame (getitem (getitem (to_wild_value p) ''project'') ''name'') check_string") auto
  moreover from this have "e = FieldExtractionError"
    by (simp add: string2_Inl)
  ultimately show ?thesis
    by (simp add: onedev_webhook_dispatch_def)
qed

lemma dispatch_get_event_error:
  assumes "field p [''project'', ''name''] = Some (JString proj)"
    and "get_event p = Inl e"
  shows "onedev_webhook_dispatch gi gp p ust = Inl e"
  using assms
  by (simp add: onedev_webhook_dispatch_def string2_iff [THEN iffD2])

lemma issue_topic_iff:
  "format_issue_topic p = Inr topic \<longleftrightarrow>
   (\<exists>proj n title.
      field p [''project'', ''name''] = Some (JString proj) \<and>
      field p [''issue'', ''number''] = Some (JInt n) \<and>
      field p [''issue'', ''title''] = Some (JString title) \<and>
      topic = proj @ '' / issue #'' @ str_int n @ '' '' @ title)"
  unfolding format_issue_topic_def and_then_eq_Inr string2_iff int2_iff
  by auto

lemma pull_request_topic_iff:
  "format_pull_request_topic p = Inr topic \<longleftrightarrow>
   (\<exists>proj n title.
      field p [''project'', ''name''] = Some (JString proj) \<and>
      field p [''request'', ''number''] = Some (JInt n) \<and>
      field p [''request'', ''title''] = Some (JString title) \<and>
      topic = proj @ '' / PR #'' @ str_int n @ '' '' @ title)"
  unfolding format_pull_request_topic_def and_then_eq_Inr string2_iff int2_iff
  by auto

lemma issue_event_opened_null:
  assumes "field p [''user'', ''name''] = Some (JString user)"
    and "field p [''issue'', ''number''] = Some (JInt n)"
    and "field p [''issue'', ''title''] = Some (JString title)"
    and "field p [''issue'', ''description''] = Some JNull"
  shows "format_issue_event gi p ''opened'' = Inr (patchURL (gi None user n ''opened'' title None))"
  using assms
  by (simp add: format_issue_event_def string2_iff [THEN iffD2] int2_iff [THEN iffD2]
      optstring2_null)

lemma issue_event_opened_absent:
  assumes "field p [''user'', ''name''] = Some (JString user)"
    and "field p [''issue'', ''number''] = Some (JInt n)"
    and "field p [''issue'', ''title''] = Some (JString title)"
    and "field p [''issue'', ''description''] = None"
  shows "format_issue_event gi p ''opened'' = Inl FieldExtractionError"
  using assms
  by (simp add: format_issue_event_def string2_iff [THEN iffD2] int2_iff [THEN iffD2]
      optstring2_absent)

lemma issue_event_state_change:
  assumes "field p [''user'', ''name''] = Some (JString user)"
    and "field p [''issue'', ''number''] = Some (JInt n)"
    and "field p [''issue'', ''title''] = Some (JString title)"
    and "field p [''change'', ''data'', ''@type''] = Some (JString ''IssueStateChangeData'')"
    and "field p [''change'', ''data'', ''oldState''] = Some (JString old)"
    and "field p [''change'', ''data'', ''newState''] = Some (JString new)"
  shows "format_issue_event gi p ''changed'' =
     Inr (patchURL (gi None user n ''changed'' title
       (Some (user @ '' changed 'state' from '' @ CHR 0x27 # old @ CHR 0x27 # '' to '' @
              CHR 0x27 # new @ [CHR 0x27]))))"
  using assms
  by (simp add: format_issue_event_def string2_iff [THEN iffD2] int2_iff [THEN iffD2]
      string3_iff [THEN iffD2])

lemma issue_event_unbound:
  assumes "field p [''user'', ''name''] = Some (JString user)"
    and "field p [''issue'', ''number''] = Some (JInt n)"
    and "field p [''issue'', ''title''] = Some (JString title)"
    and "field p [''change'', ''data'', ''@type''] = Some (JString change_type)"
    and "change_type \<noteq> ''IssueStateChangeData''"
  shows "format_issue_event gi p ''changed'' = Inl (UnboundLocalError ''message'')"
  using assms
  by (simp add: format_issue_event_def string2_iff [THEN iffD2] int2_iff [THEN iffD2]
      string3_iff [THEN iffD2])

lemma pull_request_event_body:
  assumes "field p [''user'', ''name''] = Some (JString user)"
    and "field p [''request'', ''lastUpdate'', ''activity''] = Some (JString action)"
    and "field p [''request'', ''number''] = Some (JInt n)"
    and "field p [''request'', ''sourceBranch''] = Some (JString source)"
    and "field p [''request'', ''targetBranch''] = Some (JString target)"
  shows "format_pull_request_event gp p False =
     Inr (patchURL (gp user action None n source target None))"
  using assms
  by (simp add: format_pull_request_event_def string2_iff [THEN iffD2] int2_iff [THEN iffD2]
      string3_iff [THEN iffD2])

lemma dispatch_result:
  assumes "onedev_webhook_dispatch gi gp p ust = Inr (topic, body, ev)"
  shows "get_event p = Inr (Some ev) \<and>
     (\<forall>t. ust = Some t \<and> t \<noteq> [] \<longrightarrow> topic = t) \<and>
     ((ust = None \<or> ust = Some []) \<longrightarrow>
        ((ev = ''issue_opened'' \<or> ev = ''issue_changed'') \<longrightarrow> format_issue_topic p = Inr topic) \<and>
        ((ev = ''pull_request_opened'' \<or> ev = ''pull_request_changed'') \<longrightarrow>
           format_pull_request_topic p = Inr topic))"
proof -
  obtain proj where proj: "field p [''project'', ''name''] = Some (JString proj)"
    using assms dispatch_no_project [of p gi gp ust] by auto
  obtain event where event: "get_event p = Inr event"
    using assms dispatch_get_event_error [OF proj, of _ gi gp ust]
    by (cases "get_event p") auto
  obtain ev' where some: "event = Some ev'"
    using assms dispatch_unsupported [OF proj, of gi gp ust] event
    by (cases event) auto
  note kind = get_event_supported [OF event [unfolded some]]
  note ev = event [unfolded some]
  consider "ev' = ''issue_opened''" | "ev' = ''issue_changed''"
    | "ev' = ''pull_request_opened'' \<or> ev' = ''pull_request_changed''"
    using kind by blast
  then show ?thesis
  proof cases
    case 1
    with assms dispatch_issue_opened [OF proj, of gi gp ust] ev show ?thesis
      by (auto simp: and_then_eq_Inr split: option.splits if_splits)
  next
    case 2
    with assms dispatch_issue_changed [OF proj, of gi gp ust] ev show ?thesis
      by (auto simp: and_then_eq_Inr split: option.splits if_splits)
  next
    case 3
    with assms dispatch_pull_request [OF proj ev, of gi gp ust] ev show ?thesis
      by (auto simp: and_then_eq_Inr split: option.splits if_splits)
  qed
qed

lemma main_of_dispatch_Inr:
  "onedev_webhook_dispatch gi gp p ust = Inr (topic, body, ev) \<Longrightarrow>
   onedev_webhook_main gi gp iname hname req up p branches ust outbox =
     (Inr json_success, outbox @ [(req, up, topic, body, ev)])"
  by (simp add: onedev_webhook_main_def check_send_webhook_message_def)

lemma main_of_dispatch_Inl:
  "onedev_webhook_dispatch gi gp p ust = Inl e \<Longrightarrow>
   onedev_webhook_main gi gp iname hname req up p branches ust outbox = (Inl e, outbox)"
  by (simp add: onedev_webhook_main_def)

lemma main_success_dispatch:
  assumes "onedev_webhook_main gi gp iname hname req up p branches ust outbox =
     (Inr json_success, outbox')"
  shows "\<exists>topic body ev. onedev_webhook_dispatch gi gp p ust = Inr (topic, body, ev) \<and>
     outbox' = outbox @ [(req, up, topic, body, ev)]"
  using assms
  by (auto simp: onedev_webhook_main_def check_send_webhook_message_def split: sum.splits)

subsection \<open>C1: classification of the discriminator\<close>

text \<open>
  Claim C1, as the code has it. A payload whose \<open>@class\<close> is one of the four supported
  strings is classified as the corresponding event kind; a payload whose \<open>@class\<close> is any
  other string is classified as unsupported (\<open>get_event\<close> returns \<open>None\<close>). A payload whose
  \<open>@class\<close> is absent, or is not a string, is not classified: the access fails with the
  field-extraction error.
\<close>

theorem get_event_classification:
  "(field p [''@class''] = Some (JString ''io.onedev.server.event.issue.IssueOpened'') \<longrightarrow>
      get_event p = Inr (Some ''issue_opened'')) \<and>
   (field p [''@class''] = Some (JString ''io.onedev.server.event.issue.IssueChanged'') \<longrightarrow>
      get_event p = Inr (Some ''issue_changed'')) \<and>
   (field p [''@class''] =
      Some (JString ''io.onedev.server.event.pullrequest.PullRequestOpened'') \<longrightarrow>
      get_event p = Inr (Some ''pull_request_opened'')) \<and>
   (field p [''@class''] =
      Some (JString ''io.onedev.server.event.pullrequest.PullRequestChanged'') \<longrightarrow>
      get_event p = Inr (Some ''pull_request_changed'')) \<and>
   (field p [''@class''] = Some (JString s) \<and>
    s \<noteq> ''io.onedev.server.event.issue.IssueOpened'' \<and>
    s \<noteq> ''io.onedev.server.event.issue.IssueChanged'' \<and>
    s \<noteq> ''io.onedev.server.event.pullrequest.PullRequestOpened'' \<and>
    s \<noteq> ''io.onedev.server.event.pullrequest.PullRequestChanged'' \<longrightarrow>
      get_event p = Inr None) \<and>
   ((\<forall>t. field p [''@class''] \<noteq> Some (JString t)) \<longrightarrow>
      get_event p = Inl FieldExtractionError)"
proof (intro conjI impI)
  show "get_event p = Inl FieldExtractionError"
    if "\<forall>t. field p [''@class''] \<noteq> Some (JString t)"
    using that by (rule get_event_no_string)
qed (simp_all add: get_event_string)

text \<open>
  Witness for C1: the theorem at one payload for each of its cases.
\<close>

theorem get_event_classification_witness:
  "get_event (issue_opened_payload JNull) = Inr (Some ''issue_opened'') \<and>
   get_event (issue_changed_payload state_change_data) = Inr (Some ''issue_changed'') \<and>
   get_event (pull_request_payload ''io.onedev.server.event.pullrequest.PullRequestOpened''
     ''opened'') = Inr (Some ''pull_request_opened'') \<and>
   get_event (pull_request_payload ''io.onedev.server.event.pullrequest.PullRequestChanged''
     ''approved'') = Inr (Some ''pull_request_changed'') \<and>
   get_event (project_payload
     [(''@class'', JString ''io.onedev.server.event.build.BuildFinished'')]) = Inr None \<and>
   get_event (project_payload []) = Inl FieldExtractionError \<and>
   get_event (project_payload [(''@class'', JInt 5)]) = Inl FieldExtractionError"
proof -
  have 1: "field (issue_opened_payload JNull) [''@class''] =
      Some (JString ''io.onedev.server.event.issue.IssueOpened'')"
    by (simp add: payload_defs)
  have 2: "field (issue_changed_payload state_change_data) [''@class''] =
      Some (JString ''io.onedev.server.event.issue.IssueChanged'')"
    by (simp add: payload_defs)
  have 3: "field (pull_request_payload ''io.onedev.server.event.pullrequest.PullRequestOpened''
      ''opened'') [''@class''] =
      Some (JString ''io.onedev.server.event.pullrequest.PullRequestOpened'')"
    by (simp add: payload_defs)
  have 4: "field (pull_request_payload ''io.onedev.server.event.pullrequest.PullRequestChanged''
      ''approved'') [''@class''] =
      Some (JString ''io.onedev.server.event.pullrequest.PullRequestChanged'')"
    by (simp add: payload_defs)
  have 5: "field (project_payload
      [(''@class'', JString ''io.onedev.server.event.build.BuildFinished'')]) [''@class''] =
      Some (JString ''io.onedev.server.event.build.BuildFinished'')"
    by (simp add: payload_defs)
  have 6: "\<forall>t. field (project_payload []) [''@class''] \<noteq> Some (JString t)"
    by (simp add: payload_defs)
  have 7: "\<forall>t. field (project_payload [(''@class'', JInt 5)]) [''@class''] \<noteq> Some (JString t)"
    by (simp add: payload_defs)
  show ?thesis
    using get_event_classification [of "issue_opened_payload JNull"] 1
      get_event_classification [of "issue_changed_payload state_change_data"] 2
      get_event_classification [of "pull_request_payload
        ''io.onedev.server.event.pullrequest.PullRequestOpened'' ''opened''"] 3
      get_event_classification [of "pull_request_payload
        ''io.onedev.server.event.pullrequest.PullRequestChanged'' ''approved''"] 4
      get_event_classification [of "project_payload
        [(''@class'', JString ''io.onedev.server.event.build.BuildFinished'')]"
        "''io.onedev.server.event.build.BuildFinished''"] 5
      get_event_classification [of "project_payload []"] 6
      get_event_classification [of "project_payload [(''@class'', JInt 5)]"] 7
    by simp
qed

text \<open>
  Counterexample to C1 as stated: a payload without the \<open>@class\<close> key is not reported as
  unsupported; classification fails with the field-extraction error.
\<close>

theorem get_event_absent_counterexample:
  "field (project_payload []) [''@class''] = None \<and>
   get_event (project_payload []) = Inl FieldExtractionError \<and>
   get_event (project_payload []) \<noteq> Inr None"
  by code_simp

subsection \<open>C2: the repair pass\<close>

text \<open>
  What the pass does deliver: a text without an opening bracket is unchanged, and a text that
  is one placeholder link \<open>[label](None)\<close>, with a label on one line, becomes its label.
\<close>

lemma patchURL_no_bracket: "CHR ''['' \<notin> set s \<Longrightarrow> patchURL s = s"
  by (induction s) auto

lemma match_group_single:
  "label \<noteq> [] \<Longrightarrow> CHR 0x0A \<notin> set label \<Longrightarrow>
   match_group (label @ ''](None)'') = Some (label, [])"
proof (induction label rule: list_nonempty_induct)
  case (single c)
  have "match_group ''](None)'' = None"
    by simp
  with single show ?case
    by simp
next
  case (cons c label)
  then show ?case
    by auto
qed

lemma patchURL_single:
  "label \<noteq> [] \<Longrightarrow> CHR 0x0A \<notin> set label \<Longrightarrow>
   patchURL (''['' @ label @ ''](None)'') = label"
  by (simp add: match_group_single)

text \<open>
  Claim C2 says that the repair pass replaces every \<open>[label](None)\<close> by its label, leaves
  every link with a real URL unchanged, and is idempotent. The group \<open>(.+)\<close> is greedy, so
  on one line a match runs from the first opening bracket to the last \<open>](None)\<close>: a link
  with a real URL before a placeholder link is damaged, of two placeholder links only the
  outer brackets are removed, and a nested placeholder needs two passes.
\<close>

theorem patchURL_greedy_group:
  "patchURL ''[a](http://x) [b](None)'' = ''a](http://x) [b'' \<and>
   patchURL ''[a](None) [b](None)'' = ''a](None) [b'' \<and>
   patchURL ''[[a](None)](None)'' = ''[a](None)'' \<and>
   patchURL (patchURL ''[[a](None)](None)'') = ''a''"
  by code_simp

subsection \<open>C3: the topic\<close>

text \<open>
  Claim C3, as the code has it. Whenever the handler sends a message, the event is one of the
  supported kinds and: an override topic that is not the empty string is the topic, verbatim,
  whatever the event kind; with no override, or with the empty string as override, the topic
  is \<open><project> / issue #<number> <title>\<close> for the issue events and
  \<open><project> / PR #<number> <title>\<close> for the pull-request events, from the payload's
  \<open>project.name\<close>, \<open>issue.number\<close> and \<open>issue.title\<close>, or \<open>request.number\<close> and
  \<open>request.title\<close>.
\<close>

theorem topic_override_or_computed:
  assumes "onedev_webhook_main gi gp iname hname req up p branches ust outbox =
     (Inr json_success, outbox')"
  shows "\<exists>topic body ev.
     outbox' = outbox @ [(req, up, topic, body, ev)] \<and>
     get_event p = Inr (Some ev) \<and>
     (\<forall>t. ust = Some t \<and> t \<noteq> [] \<longrightarrow> topic = t) \<and>
     ((ust = None \<or> ust = Some []) \<and> (ev = ''issue_opened'' \<or> ev = ''issue_changed'') \<longrightarrow>
        (\<exists>proj n title.
           field p [''project'', ''name''] = Some (JString proj) \<and>
           field p [''issue'', ''number''] = Some (JInt n) \<and>
           field p [''issue'', ''title''] = Some (JString title) \<and>
           topic = proj @ '' / issue #'' @ str_int n @ '' '' @ title)) \<and>
     ((ust = None \<or> ust = Some []) \<and>
      (ev = ''pull_request_opened'' \<or> ev = ''pull_request_changed'') \<longrightarrow>
        (\<exists>proj n title.
           field p [''project'', ''name''] = Some (JString proj) \<and>
           field p [''request'', ''number''] = Some (JInt n) \<and>
           field p [''request'', ''title''] = Some (JString title) \<and>
           topic = proj @ '' / PR #'' @ str_int n @ '' '' @ title))"
proof -
  from main_success_dispatch [OF assms] obtain topic body ev where
    d: "onedev_webhook_dispatch gi gp p ust = Inr (topic, body, ev)" and
    out: "outbox' = outbox @ [(req, up, topic, body, ev)]"
    by blast
  note r = dispatch_result [OF d]
  show ?thesis
  proof (intro exI conjI)
    show "outbox' = outbox @ [(req, up, topic, body, ev)]" by (rule out)
    show "get_event p = Inr (Some ev)" using r by blast
    show "\<forall>t. ust = Some t \<and> t \<noteq> [] \<longrightarrow> topic = t" using r by blast
    show "(ust = None \<or> ust = Some []) \<and> (ev = ''issue_opened'' \<or> ev = ''issue_changed'') \<longrightarrow>
        (\<exists>proj n title.
           field p [''project'', ''name''] = Some (JString proj) \<and>
           field p [''issue'', ''number''] = Some (JInt n) \<and>
           field p [''issue'', ''title''] = Some (JString title) \<and>
           topic = proj @ '' / issue #'' @ str_int n @ '' '' @ title)"
      using r issue_topic_iff [of p topic] by blast
    show "(ust = None \<or> ust = Some []) \<and>
      (ev = ''pull_request_opened'' \<or> ev = ''pull_request_changed'') \<longrightarrow>
        (\<exists>proj n title.
           field p [''project'', ''name''] = Some (JString proj) \<and>
           field p [''request'', ''number''] = Some (JInt n) \<and>
           field p [''request'', ''title''] = Some (JString title) \<and>
           topic = proj @ '' / PR #'' @ str_int n @ '' '' @ title)"
      using r pull_request_topic_iff [of p topic] by blast
  qed
qed

text \<open>
  Witness for C3: an issue event with the override \<open>my-topic\<close>, the same event without
  override, and a pull-request event without override; each request succeeds.
\<close>

theorem topic_override_or_computed_witness:
  "map (\<lambda>m. fst (snd (snd m)))
     (snd (onedev_webhook_main git_issue_event_message git_pull_request_event_message
             ''Onedev'' ''X-Gogs-Event'' () () (issue_opened_payload (JString ''steps...''))
             None (Some ''my-topic'') [])) = [''my-topic''] \<and>
   map (\<lambda>m. fst (snd (snd m)))
     (snd (onedev_webhook_main git_issue_event_message git_pull_request_event_message
             ''Onedev'' ''X-Gogs-Event'' () () (issue_opened_payload (JString ''steps...''))
             None None [])) = [''try-git / issue #7 Bug X''] \<and>
   map (\<lambda>m. fst (snd (snd m)))
     (snd (onedev_webhook_main git_issue_event_message git_pull_request_event_message
             ''Onedev'' ''X-Gogs-Event'' () ()
             (pull_request_payload ''io.onedev.server.event.pullrequest.PullRequestChanged''
                ''approved'')
             None None [])) = [''try-git / PR #1 Add feature'']"
proof (intro conjI)
  let ?P = "issue_opened_payload (JString ''steps...'')"
  let ?Q = "pull_request_payload ''io.onedev.server.event.pullrequest.PullRequestChanged''
                ''approved''"
  let ?M1 = "onedev_webhook_main git_issue_event_message git_pull_request_event_message
             ''Onedev'' ''X-Gogs-Event'' () () ?P None (Some ''my-topic'') []"
  let ?M2 = "onedev_webhook_main git_issue_event_message git_pull_request_event_message
             ''Onedev'' ''X-Gogs-Event'' () () ?P None None []"
  let ?M3 = "onedev_webhook_main git_issue_event_message git_pull_request_event_message
             ''Onedev'' ''X-Gogs-Event'' () () ?Q None None []"
  have "fst ?M1 = Inr json_success" by code_simp
  then have s1: "?M1 = (Inr json_success, snd ?M1)" by (simp add: prod_eq_iff)
  have "fst ?M2 = Inr json_success" by code_simp
  then have s2: "?M2 = (Inr json_success, snd ?M2)" by (simp add: prod_eq_iff)
  have "fst ?M3 = Inr json_success" by code_simp
  then have s3: "?M3 = (Inr json_success, snd ?M3)" by (simp add: prod_eq_iff)
  have evP: "get_event ?P = Inr (Some ''issue_opened'')" by code_simp
  have evQ: "get_event ?Q = Inr (Some ''pull_request_changed'')" by code_simp
  have fP: "field ?P [''project'', ''name''] = Some (JString ''try-git'')"
    "field ?P [''issue'', ''number''] = Some (JInt 7)"
    "field ?P [''issue'', ''title''] = Some (JString ''Bug X'')"
    by (simp_all add: payload_defs)
  have fQ: "field ?Q [''project'', ''name''] = Some (JString ''try-git'')"
    "field ?Q [''request'', ''number''] = Some (JInt 1)"
    "field ?Q [''request'', ''title''] = Some (JString ''Add feature'')"
    by (simp_all add: payload_defs)
  have num: "str_int 7 = ''7''" "str_int 1 = ''1''"
    by (simp_all add: str_int_def str_nat.simps)
  from topic_override_or_computed [OF s1]
  show "map (\<lambda>m. fst (snd (snd m))) (snd ?M1) = [''my-topic'']"
    by auto
  from topic_override_or_computed [OF s2]
  show "map (\<lambda>m. fst (snd (snd m))) (snd ?M2) = [''try-git / issue #7 Bug X'']"
    unfolding evP fP by (auto simp: num)
  from topic_override_or_computed [OF s3]
  show "map (\<lambda>m. fst (snd (snd m))) (snd ?M3) = [''try-git / PR #1 Add feature'']"
    unfolding evQ fQ by (auto simp: num)
qed

text \<open>
  Counterexample to C3 as stated: the override topic is supplied as the empty string, and the
  topic of the message is the computed one.
\<close>

theorem empty_override_counterexample:
  "api_onedev_webhook git_issue_event_message git_pull_request_event_message () ()
     (issue_opened_payload (JString ''steps...'')) None (Some '''') [] =
   (Inr json_success,
    [((), (), ''try-git / issue #7 Bug X'', ''steps...'', ''issue_opened'')])"
  by code_simp

subsection \<open>C4: the description of an opened issue\<close>

text \<open>
  Claim C4, as the code has it. For an issue-opened payload with its required fields, a
  description that is \<open>null\<close> is no error: the request succeeds and the body is rendered
  by the templating collaborator with no message (\<open>None\<close>). When the \<open>description\<close> key is
  absent the request fails with the field-extraction error and nothing is sent.
\<close>

theorem issue_opened_description:
  assumes "field p [''@class''] = Some (JString ''io.onedev.server.event.issue.IssueOpened'')"
    and "field p [''project'', ''name''] = Some (JString proj)"
    and "field p [''user'', ''name''] = Some (JString user)"
    and "field p [''issue'', ''number''] = Some (JInt n)"
    and "field p [''issue'', ''title''] = Some (JString title)"
  shows "(field p [''issue'', ''description''] = Some JNull \<longrightarrow>
      onedev_webhook_main gi gp iname hname req up p branches ust outbox =
        (Inr json_success,
         outbox @ [(req, up,
                    (case ust of
                       None \<Rightarrow> proj @ '' / issue #'' @ str_int n @ '' '' @ title
                     | Some t \<Rightarrow>
                         if t \<noteq> [] then t else proj @ '' / issue #'' @ str_int n @ '' '' @ title),
                    patchURL (gi None user n ''opened'' title None),
                    ''issue_opened'')])) \<and>
     (field p [''issue'', ''description''] = None \<longrightarrow>
      onedev_webhook_main gi gp iname hname req up p branches ust outbox =
        (Inl FieldExtractionError, outbox))"
proof (intro conjI impI)
  have ev: "get_event p = Inr (Some ''issue_opened'')"
    using assms(1) by (simp add: get_event_string)
  have topic: "format_issue_topic p = Inr (proj @ '' / issue #'' @ str_int n @ '' '' @ title)"
    using assms by (simp add: issue_topic_iff)
  note d = dispatch_issue_opened [OF assms(2) ev, of gi gp ust]
  {
    assume "field p [''issue'', ''description''] = Some JNull"
    then have "format_issue_event gi p ''opened'' =
        Inr (patchURL (gi None user n ''opened'' title None))"
      using assms by (simp add: issue_event_opened_null)
    with d topic have "onedev_webhook_dispatch gi gp p ust =
        Inr (case ust of
               None \<Rightarrow> proj @ '' / issue #'' @ str_int n @ '' '' @ title
             | Some t \<Rightarrow> if t \<noteq> [] then t else proj @ '' / issue #'' @ str_int n @ '' '' @ title,
             patchURL (gi None user n ''opened'' title None), ''issue_opened'')"
      by (simp split: option.splits)
    then show "onedev_webhook_main gi gp iname hname req up p branches ust outbox =
        (Inr json_success,
         outbox @ [(req, up,
                    (case ust of
                       None \<Rightarrow> proj @ '' / issue #'' @ str_int n @ '' '' @ title
                     | Some t \<Rightarrow>
                         if t \<noteq> [] then t else proj @ '' / issue #'' @ str_int n @ '' '' @ title),
                    patchURL (gi None user n ''opened'' title None),
                    ''issue_opened'')])"
      by (rule main_of_dispatch_Inr)
  }
  {
    assume "field p [''issue'', ''description''] = None"
    then have "format_issue_event gi p ''opened'' = Inl FieldExtractionError"
      using assms by (simp add: issue_event_opened_absent)
    with d have "onedev_webhook_dispatch gi gp p ust = Inl FieldExtractionError"
      by simp
    then show "onedev_webhook_main gi gp iname hname req up p branches ust outbox =
        (Inl FieldExtractionError, outbox)"
      by (rule main_of_dispatch_Inl)
  }
qed

text \<open>
  Witness for C4: the example payload with a \<open>null\<close> description, and the one without the
  key.
\<close>

theorem issue_opened_description_witness:
  "onedev_webhook_main git_issue_event_message git_pull_request_event_message
     ''Onedev'' ''X-Gogs-Event'' () () (issue_opened_payload JNull) None None [] =
     (Inr json_success,
      [((), (), ''try-git / issue #7 Bug X'', [], ''issue_opened'')]) \<and>
   onedev_webhook_main git_issue_event_message git_pull_request_event_message
     ''Onedev'' ''X-Gogs-Event'' () () issue_opened_no_description None None [] =
     (Inl FieldExtractionError, [])"
proof
  let ?P = "issue_opened_payload JNull"
  have f: "field ?P [''@class''] = Some (JString ''io.onedev.server.event.issue.IssueOpened'')"
    "field ?P [''project'', ''name''] = Some (JString ''try-git'')"
    "field ?P [''user'', ''name''] = Some (JString ''john'')"
    "field ?P [''issue'', ''number''] = Some (JInt 7)"
    "field ?P [''issue'', ''title''] = Some (JString ''Bug X'')"
    "field ?P [''issue'', ''description''] = Some JNull"
    by (simp_all add: payload_defs)
  have body: "patchURL (git_issue_event_message None ''john'' 7 ''opened'' ''Bug X'' None) = []"
    by code_simp
  have num: "str_int 7 = ''7''"
    by (simp add: str_int_def str_nat.simps)
  from issue_opened_description [OF f(1-5), of git_issue_event_message
      git_pull_request_event_message "''Onedev''" "''X-Gogs-Event''" "()" "()" None None "[]"]
    f(6)
  show "onedev_webhook_main git_issue_event_message git_pull_request_event_message
     ''Onedev'' ''X-Gogs-Event'' () () ?P None None [] =
     (Inr json_success,
      [((), (), ''try-git / issue #7 Bug X'', [], ''issue_opened'')])"
    by (simp add: body num)
next
  let ?P = "issue_opened_no_description"
  have f: "field ?P [''@class''] = Some (JString ''io.onedev.server.event.issue.IssueOpened'')"
    "field ?P [''project'', ''name''] = Some (JString ''try-git'')"
    "field ?P [''user'', ''name''] = Some (JString ''john'')"
    "field ?P [''issue'', ''number''] = Some (JInt 7)"
    "field ?P [''issue'', ''title''] = Some (JString ''Bug X'')"
    "field ?P [''issue'', ''description''] = None"
    by (simp_all add: payload_defs)
  from issue_opened_description [OF f(1-5), of git_issue_event_message
      git_pull_request_event_message "''Onedev''" "''X-Gogs-Event''" "()" "()" None None "[]"]
    f(6)
  show "onedev_webhook_main git_issue_event_message git_pull_request_event_message
     ''Onedev'' ''X-Gogs-Event'' () () ?P None None [] = (Inl FieldExtractionError, [])"
    by simp
qed

text \<open>
  Counterexample to C4 as stated: the \<open>description\<close> key is absent and the request fails.
\<close>

theorem absent_description_counterexample:
  "field issue_opened_no_description [''issue'', ''description''] = None \<and>
   api_onedev_webhook git_issue_event_message git_pull_request_event_message () ()
     issue_opened_no_description None None [] = (Inl FieldExtractionError, [])"
  by code_simp

subsection \<open>C5: the body of a state change\<close>

text \<open>
  What lines 96 to 110 do, for every templating collaborator: for an issue-changed payload
  whose change data has the type \<open>IssueStateChangeData\<close>, the string
  \<open><user> changed 'state' from '<old>' to '<new>'\<close> is the message handed to the collaborator,
  with the action \<open>changed\<close>, the issue number and the title, and the body is the repair pass
  applied to what the collaborator renders.
\<close>

lemma state_change_message:
  assumes "field p [''@class''] = Some (JString ''io.onedev.server.event.issue.IssueChanged'')"
    and "field p [''project'', ''name''] = Some (JString proj)"
    and "field p [''user'', ''name''] = Some (JString user)"
    and "field p [''issue'', ''number''] = Some (JInt n)"
    and "field p [''issue'', ''title''] = Some (JString title)"
    and "field p [''change'', ''data'', ''@type''] = Some (JString ''IssueStateChangeData'')"
    and "field p [''change'', ''data'', ''oldState''] = Some (JString old)"
    and "field p [''change'', ''data'', ''newState''] = Some (JString new)"
  shows "onedev_webhook_main gi gp iname hname req up p branches ust outbox =
     (Inr json_success,
      outbox @ [(req, up,
                 (case ust of
                    None \<Rightarrow> proj @ '' / issue #'' @ str_int n @ '' '' @ title
                  | Some t \<Rightarrow>
                      if t \<noteq> [] then t else proj @ '' / issue #'' @ str_int n @ '' '' @ title),
                 patchURL (gi None user n ''changed'' title
                   (Some (user @ '' changed 'state' from '' @ CHR 0x27 # old @ CHR 0x27 #
                          '' to '' @ CHR 0x27 # new @ [CHR 0x27]))),
                 ''issue_changed'')])"
proof -
  have ev: "get_event p = Inr (Some ''issue_changed'')"
    using assms(1) by (simp add: get_event_string)
  have topic: "format_issue_topic p = Inr (proj @ '' / issue #'' @ str_int n @ '' '' @ title)"
    using assms by (simp add: issue_topic_iff)
  note body = issue_event_state_change [OF assms(3-8), of gi]
  have "onedev_webhook_dispatch gi gp p ust =
      Inr (case ust of
             None \<Rightarrow> proj @ '' / issue #'' @ str_int n @ '' '' @ title
           | Some t \<Rightarrow> if t \<noteq> [] then t else proj @ '' / issue #'' @ str_int n @ '' '' @ title,
           patchURL (gi None user n ''changed'' title
             (Some (user @ '' changed 'state' from '' @ CHR 0x27 # old @ CHR 0x27 #
                    '' to '' @ CHR 0x27 # new @ [CHR 0x27]))), ''issue_changed'')"
    unfolding dispatch_issue_changed [OF assms(2) ev] body topic
    by (simp split: option.splits)
  then show ?thesis
    by (rule main_of_dispatch_Inr)
qed

text \<open>
  Claim C5, with the collaborator \<open>get_issue_event_message\<close> as modelled from the spec. For every
  issue-changed payload (with the fields the handler requires) whose change data has the
  type \<open>IssueStateChangeData\<close>, with user name \<open>john\<close>, old state \<open>open\<close> and new state
  \<open>closed\<close>, the request succeeds and the body of the message is exactly the string
  \<open>john changed 'state' from 'open' to 'closed'\<close>.
\<close>

theorem state_change_body:
  assumes "field p [''@class''] = Some (JString ''io.onedev.server.event.issue.IssueChanged'')"
    and "field p [''project'', ''name''] = Some (JString proj)"
    and "field p [''user'', ''name''] = Some (JString ''john'')"
    and "field p [''issue'', ''number''] = Some (JInt n)"
    and "field p [''issue'', ''title''] = Some (JString title)"
    and "field p [''change'', ''data'', ''@type''] = Some (JString ''IssueStateChangeData'')"
    and "field p [''change'', ''data'', ''oldState''] = Some (JString ''open'')"
    and "field p [''change'', ''data'', ''newState''] = Some (JString ''closed'')"
  shows "onedev_webhook_main git_issue_event_message gp iname hname req up p branches ust
       outbox =
     (Inr json_success,
      outbox @ [(req, up,
                 (case ust of
                    None \<Rightarrow> proj @ '' / issue #'' @ str_int n @ '' '' @ title
                  | Some t \<Rightarrow>
                      if t \<noteq> [] then t else proj @ '' / issue #'' @ str_int n @ '' '' @ title),
                 ''john changed 'state' from 'open' to 'closed'' @ [CHR 0x27],
                 ''issue_changed'')])"
proof -
  have "git_issue_event_message None ''john'' n ''changed'' title
      (Some (''john'' @ '' changed 'state' from '' @ CHR 0x27 # ''open'' @ CHR 0x27 #
             '' to '' @ CHR 0x27 # ''closed'' @ [CHR 0x27])) =
      ''['' @ (''john changed 'state' from 'open' to 'closed'' @ [CHR 0x27]) @ ''](None)''"
    by (simp add: git_issue_event_message_def url_text_def)
  moreover have "patchURL
      (''['' @ (''john changed 'state' from 'open' to 'closed'' @ [CHR 0x27]) @ ''](None)'') =
      ''john changed 'state' from 'open' to 'closed'' @ [CHR 0x27]"
    by (rule patchURL_single) simp_all
  ultimately have "patchURL (git_issue_event_message None ''john'' n ''changed'' title
      (Some (''john'' @ '' changed 'state' from '' @ CHR 0x27 # ''open'' @ CHR 0x27 #
             '' to '' @ CHR 0x27 # ''closed'' @ [CHR 0x27]))) =
      ''john changed 'state' from 'open' to 'closed'' @ [CHR 0x27]"
    by simp
  with state_change_message [OF assms, of git_issue_event_message gp iname hname req up
      branches ust outbox]
  show ?thesis
    by simp
qed

text \<open>
  Witness for C5: the example payload of a state change from \<open>open\<close> to \<open>closed\<close> by \<open>john\<close>.
\<close>

theorem state_change_body_witness:
  "onedev_webhook_main git_issue_event_message git_pull_request_event_message
     ''Onedev'' ''X-Gogs-Event'' () () (issue_changed_payload state_change_data) None None [] =
   (Inr json_success,
    [((), (), ''try-git / issue #7 Bug X'',
      ''john changed 'state' from 'open' to 'closed'' @ [CHR 0x27], ''issue_changed'')])"
proof -
  let ?P = "issue_changed_payload state_change_data"
  have f: "field ?P [''@class''] = Some (JString ''io.onedev.server.event.issue.IssueChanged'')"
    "field ?P [''project'', ''name''] = Some (JString ''try-git'')"
    "field ?P [''user'', ''name''] = Some (JString ''john'')"
    "field ?P [''issue'', ''number''] = Some (JInt 7)"
    "field ?P [''issue'', ''title''] = Some (JString ''Bug X'')"
    "field ?P [''change'', ''data'', ''@type''] = Some (JString ''IssueStateChangeData'')"
    "field ?P [''change'', ''data'', ''oldState''] = Some (JString ''open'')"
    "field ?P [''change'', ''data'', ''newState''] = Some (JString ''closed'')"
    by (simp_all add: payload_defs)
  have num: "str_int 7 = ''7''"
    by (simp add: str_int_def str_nat.simps)
  from state_change_body [OF f, of git_pull_request_event_message
      "''Onedev''" "''X-Gogs-Event''" "()" "()" None None "[]"]
  show ?thesis
    by (simp add: num)
qed

subsection \<open>C6: a change of another type\<close>

text \<open>
  Claim C6 says that an issue-changed payload whose change-data type is not
  \<open>IssueStateChangeData\<close> still yields a message. In the code no branch assigns \<open>message\<close>
  for such a payload, and reading it on line 108 raises \<open>UnboundLocalError\<close>: the request
  fails and nothing is sent.
\<close>

theorem unknown_change_type_unbound:
  "api_onedev_webhook git_issue_event_message git_pull_request_event_message () ()
     (issue_changed_payload title_change_data) None None [] =
   (Inl (UnboundLocalError ''message''), [])"
  by code_simp

subsection \<open>C7: unsupported events\<close>

text \<open>
  Claim C7, as the code has it. For every payload with a string-valued \<open>project.name\<close>
  whose \<open>@class\<close> is a string other than the four supported ones, the handler raises the
  unsupported-event error and sends nothing. And whenever the handler raises any error, the
  delivery collaborator has not been called: the outbox is as it was.
\<close>

theorem unsupported_event_rejected:
  "(field p [''project'', ''name''] = Some (JString proj) \<and>
    field p [''@class''] = Some (JString s) \<and>
    s \<noteq> ''io.onedev.server.event.issue.IssueOpened'' \<and>
    s \<noteq> ''io.onedev.server.event.issue.IssueChanged'' \<and>
    s \<noteq> ''io.onedev.server.event.pullrequest.PullRequestOpened'' \<and>
    s \<noteq> ''io.onedev.server.event.pullrequest.PullRequestChanged'' \<longrightarrow>
    onedev_webhook_main gi gp iname hname req up p branches ust outbox =
      (Inl (UnsupportedWebhookEventType None), outbox)) \<and>
   (\<forall>e. fst (onedev_webhook_main gi gp iname hname req up p branches ust outbox) = Inl e \<longrightarrow>
        snd (onedev_webhook_main gi gp iname hname req up p branches ust outbox) = outbox)"
proof (intro conjI impI allI)
  assume h: "field p [''project'', ''name''] = Some (JString proj) \<and>
    field p [''@class''] = Some (JString s) \<and>
    s \<noteq> ''io.onedev.server.event.issue.IssueOpened'' \<and>
    s \<noteq> ''io.onedev.server.event.issue.IssueChanged'' \<and>
    s \<noteq> ''io.onedev.server.event.pullrequest.PullRequestOpened'' \<and>
    s \<noteq> ''io.onedev.server.event.pullrequest.PullRequestChanged''"
  then have "get_event p = Inr None"
    by (simp add: get_event_string)
  with h have "onedev_webhook_dispatch gi gp p ust = Inl (UnsupportedWebhookEventType None)"
    by (simp add: dispatch_unsupported)
  then show "onedev_webhook_main gi gp iname hname req up p branches ust outbox =
      (Inl (UnsupportedWebhookEventType None), outbox)"
    by (rule main_of_dispatch_Inl)
next
  fix e
  assume "fst (onedev_webhook_main gi gp iname hname req up p branches ust outbox) = Inl e"
  then show "snd (onedev_webhook_main gi gp iname hname req up p branches ust outbox) = outbox"
    by (simp add: onedev_webhook_main_def split: sum.splits prod.splits)
qed

text \<open>
  Witness for C7: an unsupported discriminator with a project name, and a request that fails.
\<close>

theorem unsupported_event_rejected_witness:
  "onedev_webhook_main git_issue_event_message git_pull_request_event_message
     ''Onedev'' ''X-Gogs-Event'' () ()
     (project_payload [(''@class'', JString ''io.onedev.server.event.build.BuildFinished'')])
     None None [] = (Inl (UnsupportedWebhookEventType None), []) \<and>
   snd (onedev_webhook_main git_issue_event_message git_pull_request_event_message
     ''Onedev'' ''X-Gogs-Event'' () () (issue_changed_payload title_change_data)
     None None []) = []"
proof -
  let ?P = "project_payload
    [(''@class'', JString ''io.onedev.server.event.build.BuildFinished'')]"
  let ?Q = "issue_changed_payload title_change_data"
  have f: "field ?P [''project'', ''name''] = Some (JString ''try-git'')"
    "field ?P [''@class''] = Some (JString ''io.onedev.server.event.build.BuildFinished'')"
    by (simp_all add: payload_defs)
  have e: "fst (onedev_webhook_main git_issue_event_message git_pull_request_event_message
     ''Onedev'' ''X-Gogs-Event'' () () ?Q None None []) = Inl (UnboundLocalError ''message'')"
    by code_simp
  show ?thesis
    using unsupported_event_rejected [of ?P "''try-git''"
        "''io.onedev.server.event.build.BuildFinished''" git_issue_event_message
        git_pull_request_event_message "''Onedev''" "''X-Gogs-Event''" "()" "()" None None "[]"]
      unsupported_event_rejected [of ?Q _ _ git_issue_event_message
        git_pull_request_event_message "''Onedev''" "''X-Gogs-Event''" "()" "()" None None "[]"]
      f e
    by simp
qed

text \<open>
  Counterexample to C7 as stated: the discriminator maps to no supported event kind, the
  payload has no \<open>project\<close>, and the error is the field-extraction error, not the
  unsupported-event error.
\<close>

theorem unsupported_without_project_counterexample:
  "get_event (bare_payload
     [(''@class'', JString ''io.onedev.server.event.build.BuildFinished'')]) = Inr None \<and>
   api_onedev_webhook git_issue_event_message git_pull_request_event_message () ()
     (bare_payload [(''@class'', JString ''io.onedev.server.event.build.BuildFinished'')])
     None None [] = (Inl FieldExtractionError, [])"
  by code_simp

subsection \<open>C8: branches and title of a pull request\<close>

text \<open>
  Claim C8. For every pull-request event, opened or changed, the templating collaborator is
  called with the value of the payload field \<open>sourceBranch\<close> as its \<open>target_branch\<close> (the
  fifth argument) and the value of \<open>targetBranch\<close> as its \<open>base_branch\<close> (the sixth), and
  with no title (\<open>None\<close>, the last argument): the handler calls the formatter with
  \<open>include_title\<close> false on both paths, and \<open>pull_request.title\<close> is never read.
\<close>

theorem pull_request_branches_and_title:
  assumes "field p [''@class''] = Some (JString c)"
    and "c = ''io.onedev.server.event.pullrequest.PullRequestOpened'' \<or>
         c = ''io.onedev.server.event.pullrequest.PullRequestChanged''"
    and "field p [''project'', ''name''] = Some (JString proj)"
    and "field p [''user'', ''name''] = Some (JString user)"
    and "field p [''request'', ''lastUpdate'', ''activity''] = Some (JString action)"
    and "field p [''request'', ''number''] = Some (JInt n)"
    and "field p [''request'', ''sourceBranch''] = Some (JString source)"
    and "field p [''request'', ''targetBranch''] = Some (JString target)"
    and "field p [''request'', ''title''] = Some (JString title)"
  shows "format_pull_request_event gp p False =
       Inr (patchURL (gp user action None n source target None)) \<and>
     onedev_webhook_main gi gp iname hname req up p branches ust outbox =
       (Inr json_success,
        outbox @ [(req, up,
                   (case ust of
                      None \<Rightarrow> proj @ '' / PR #'' @ str_int n @ '' '' @ title
                    | Some t \<Rightarrow>
                        if t \<noteq> [] then t else proj @ '' / PR #'' @ str_int n @ '' '' @ title),
                   patchURL (gp user action None n source target None),
                   (if c = ''io.onedev.server.event.pullrequest.PullRequestOpened''
                    then ''pull_request_opened'' else ''pull_request_changed''))])"
proof
  show body: "format_pull_request_event gp p False =
       Inr (patchURL (gp user action None n source target None))"
    by (rule pull_request_event_body [OF assms(4-8)])
  define ev where "ev = (if c = ''io.onedev.server.event.pullrequest.PullRequestOpened''
                    then ''pull_request_opened'' else ''pull_request_changed'')"
  have ev: "get_event p = Inr (Some ev)"
    using assms(1,2) by (auto simp: get_event_string ev_def)
  have kind: "ev = ''pull_request_opened'' \<or> ev = ''pull_request_changed''"
    by (simp add: ev_def)
  have topic: "format_pull_request_topic p =
      Inr (proj @ '' / PR #'' @ str_int n @ '' '' @ title)"
    using assms by (simp add: pull_request_topic_iff)
  have "onedev_webhook_dispatch gi gp p ust =
      Inr (case ust of
             None \<Rightarrow> proj @ '' / PR #'' @ str_int n @ '' '' @ title
           | Some t \<Rightarrow> if t \<noteq> [] then t else proj @ '' / PR #'' @ str_int n @ '' '' @ title,
           patchURL (gp user action None n source target None), ev)"
    unfolding dispatch_pull_request [OF assms(3) ev kind] body topic
    by (simp split: option.splits)
  then show "onedev_webhook_main gi gp iname hname req up p branches ust outbox =
       (Inr json_success,
        outbox @ [(req, up,
                   (case ust of
                      None \<Rightarrow> proj @ '' / PR #'' @ str_int n @ '' '' @ title
                    | Some t \<Rightarrow>
                        if t \<noteq> [] then t else proj @ '' / PR #'' @ str_int n @ '' '' @ title),
                   patchURL (gp user action None n source target None),
                   (if c = ''io.onedev.server.event.pullrequest.PullRequestOpened''
                    then ''pull_request_opened'' else ''pull_request_changed''))])"
    unfolding ev_def by (rule main_of_dispatch_Inr)
qed

text \<open>
  Witness for C8: the spec's scenario (user \<open>john\<close>, number 1, action \<open>opened\<close>,
  \<open>sourceBranch\<close> \<open>master\<close>, \<open>targetBranch\<close> \<open>feature\<close>) and a changed pull request, with the
  pull-request line of the comment on line 118.
\<close>

theorem pull_request_branches_and_title_witness:
  "onedev_webhook_main git_issue_event_message git_pull_request_event_message
     ''Onedev'' ''X-Gogs-Event'' () ()
     (pull_request_payload ''io.onedev.server.event.pullrequest.PullRequestOpened'' ''opened'')
     None None [] =
   (Inr json_success,
    [((), (), ''try-git / PR #1 Add feature'', ''john opened PR #1 from `master` to `feature`.'',
      ''pull_request_opened'')]) \<and>
   onedev_webhook_main git_issue_event_message git_pull_request_event_message
     ''Onedev'' ''X-Gogs-Event'' () ()
     (pull_request_payload ''io.onedev.server.event.pullrequest.PullRequestChanged''
        ''approved'')
     None None [] =
   (Inr json_success,
    [((), (), ''try-git / PR #1 Add feature'',
      ''john approved PR #1 from `master` to `feature`.'', ''pull_request_changed'')])"
proof
  let ?c = "''io.onedev.server.event.pullrequest.PullRequestOpened''"
  let ?P = "pull_request_payload ?c ''opened''"
  have f: "field ?P [''@class''] = Some (JString ?c)"
    "?c = ''io.onedev.server.event.pullrequest.PullRequestOpened'' \<or>
     ?c = ''io.onedev.server.event.pullrequest.PullRequestChanged''"
    "field ?P [''project'', ''name''] = Some (JString ''try-git'')"
    "field ?P [''user'', ''name''] = Some (JString ''john'')"
    "field ?P [''request'', ''lastUpdate'', ''activity''] = Some (JString ''opened'')"
    "field ?P [''request'', ''number''] = Some (JInt 1)"
    "field ?P [''request'', ''sourceBranch''] = Some (JString ''master'')"
    "field ?P [''request'', ''targetBranch''] = Some (JString ''feature'')"
    "field ?P [''request'', ''title''] = Some (JString ''Add feature'')"
    by (simp_all add: payload_defs)
  have body: "patchURL (git_pull_request_event_message ''john'' ''opened'' None 1 ''master''
      ''feature'' None) = ''john opened PR #1 from `master` to `feature`.''"
    by code_simp
  have num: "str_int 1 = ''1''"
    by (simp add: str_int_def str_nat.simps)
  from pull_request_branches_and_title [OF f, of git_pull_request_event_message
      git_issue_event_message "''Onedev''" "''X-Gogs-Event''" "()" "()" None None "[]"]
  show "onedev_webhook_main git_issue_event_message git_pull_request_event_message
     ''Onedev'' ''X-Gogs-Event'' () () ?P None None [] =
   (Inr json_success,
    [((), (), ''try-git / PR #1 Add feature'', ''john opened PR #1 from `master` to `feature`.'',
      ''pull_request_opened'')])"
    by (simp add: body num)
next
  let ?c = "''io.onedev.server.event.pullrequest.PullRequestChanged''"
  let ?P = "pull_request_payload ?c ''approved''"
  have f: "field ?P [''@class''] = Some (JString ?c)"
    "?c = ''io.onedev.server.event.pullrequest.PullRequestOpened'' \<or>
     ?c = ''io.onedev.server.event.pullrequest.PullRequestChanged''"
    "field ?P [''project'', ''name''] = Some (JString ''try-git'')"
    "field ?P [''user'', ''name''] = Some (JString ''john'')"
    "field ?P [''request'', ''lastUpdate'', ''activity''] = Some (JString ''approved'')"
    "field ?P [''request'', ''number''] = Some (JInt 1)"
    "field ?P [''request'', ''sourceBranch''] = Some (JString ''master'')"
    "field ?P [''request'', ''targetBranch''] = Some (JString ''feature'')"
    "field ?P [''request'', ''title''] = Some (JString ''Add feature'')"
    by (simp_all add: payload_defs)
  have body: "patchURL (git_pull_request_event_message ''john'' ''approved'' None 1 ''master''
      ''feature'' None) = ''john approved PR #1 from `master` to `feature`.''"
    by code_simp
  have num: "str_int 1 = ''1''"
    by (simp add: str_int_def str_nat.simps)
  from pull_request_branches_and_title [OF f, of git_pull_request_event_message
      git_issue_event_message "''Onedev''" "''X-Gogs-Event''" "()" "()" None None "[]"]
  show "onedev_webhook_main git_issue_event_message git_pull_request_event_message
     ''Onedev'' ''X-Gogs-Event'' () () ?P None None [] =
   (Inr json_success,
    [((), (), ''try-git / PR #1 Add feature'',
      ''john approved PR #1 from `master` to `feature`.'', ''pull_request_changed'')])"
    by (simp add: body num)
qed

subsection \<open>C9: the \<open>branches\<close> parameter\<close>

text \<open>
  Claim C9. The \<open>branches\<close> argument is accepted and has no influence: for every payload
  and override topic, two runs that differ only in \<open>branches\<close> (absent or any string)
  give the same response or error and the same outbox, hence the same topic, body and event.
\<close>

theorem branches_unused:
  "api_onedev_webhook gi gp req up p branches ust outbox =
     api_onedev_webhook gi gp req up p branches' ust outbox \<and>
   onedev_webhook_main gi gp iname hname req up p branches ust outbox =
     onedev_webhook_main gi gp iname hname req up p branches' ust outbox"
  by (simp add: api_onedev_webhook_def onedev_webhook_main_def)

subsection \<open>C10: \<open>project.name\<close> is read first\<close>

text \<open>
  Claim C10. For every payload without a string-valued \<open>project.name\<close>, whatever its
  discriminator, the request fails with the field-extraction error, never with the
  unsupported-event error, and nothing is sent.
\<close>

theorem project_name_read_first:
  assumes "\<forall>s. field p [''project'', ''name''] \<noteq> Some (JString s)"
  shows "onedev_webhook_main gi gp iname hname req up p branches ust outbox =
       (Inl FieldExtractionError, outbox) \<and>
     fst (onedev_webhook_main gi gp iname hname req up p branches ust outbox) \<noteq>
       Inl (UnsupportedWebhookEventType ev)"
  by (simp add: main_of_dispatch_Inl [OF dispatch_no_project [OF assms]])

text \<open>
  Witness for C10: a payload with a supported discriminator and one with an unsupported
  discriminator, both without \<open>project\<close>.
\<close>

theorem project_name_read_first_witness:
  "onedev_webhook_main git_issue_event_message git_pull_request_event_message
     ''Onedev'' ''X-Gogs-Event'' () ()
     (bare_payload [(''@class'', JString ''io.onedev.server.event.issue.IssueOpened'')])
     None None [] = (Inl FieldExtractionError, []) \<and>
   onedev_webhook_main git_issue_event_message git_pull_request_event_message
     ''Onedev'' ''X-Gogs-Event'' () ()
     (bare_payload [(''@class'', JString ''io.onedev.server.event.build.BuildFinished'')])
     None None [] = (Inl FieldExtractionError, [])"
proof -
  have 1: "\<forall>s. field (bare_payload
      [(''@class'', JString ''io.onedev.server.event.issue.IssueOpened'')])
      [''project'', ''name''] \<noteq> Some (JString s)"
    by (simp add: payload_defs)
  have 2: "\<forall>s. field (bare_payload
      [(''@class'', JString ''io.onedev.server.event.build.BuildFinished'')])
      [''project'', ''name''] \<noteq> Some (JString s)"
    by (simp add: payload_defs)
  show ?thesis
    using project_name_read_first [OF 1, of git_issue_event_message
        git_pull_request_event_message "''Onedev''" "''X-Gogs-Event''" "()" "()" None None "[]"]
      project_name_read_first [OF 2, of git_issue_event_message
        git_pull_request_event_message "''Onedev''" "''X-Gogs-Event''" "()" "()" None None "[]"]
    by simp
qed

end
